theory Spec2Isabelle
  imports Main
begin

section \<open>Exceptions\<close>

text \<open>
  Every exception the modelled code can raise is a value; an operation that may raise
  returns \<open>exception + 'a\<close>, with \<open>Inl\<close> for the raised exception.  The argument of a
  constructor is the message (for \<open>KeyError\<close> the missing key, for \<open>UnboundLocalError\<close>
  the name of the unassigned local variable).  The driver's \<open>IntegrityError\<close> carries a
  driver-specific text that no modelled operation reads.
\<close>

datatype exception =
    KeyError string
  | CheckError string
  | IntegrityError
  | DagsterInvariantViolationError string
  | UnboundLocalError string

text \<open>The Python class of an exception value (\<open>type(e).__name__\<close>).\<close>

fun exception_class :: "exception \<Rightarrow> string" where
  "exception_class (KeyError _) = ''KeyError''"
| "exception_class (CheckError _) = ''CheckError''"
| "exception_class IntegrityError = ''IntegrityError''"
| "exception_class (DagsterInvariantViolationError _) = ''DagsterInvariantViolationError''"
| "exception_class (UnboundLocalError _) = ''UnboundLocalError''"

text \<open>
  Modelled from the spec: the module \<open>dagster.check\<close> is not among the sources.  The spec
  calls what \<open>check.failed\<close> and \<open>check.invariant\<close> raise an invariant-violation error;
  both raise the one class \<open>CheckError\<close>.  \<open>check.failed desc\<close> always raises;
  \<open>check.invariant cond\<close> raises when \<open>cond\<close> is false and returns otherwise.  The
  parameter checks (\<open>check.str_param\<close>, \<open>check.inst_param\<close>, \<open>check.list_param\<close>) only
  reject arguments of the wrong Python type, which the types of the model exclude.
\<close>

definition check_failed :: "string \<Rightarrow> exception + 'a" where
  "check_failed desc = Inl (CheckError (''Failure condition: '' @ desc))"

definition check_invariant :: "bool \<Rightarrow> exception + unit" where
  "check_invariant condition =
     (if \<not> condition then Inl (CheckError ''Invariant failed.'') else Inr ())"


section \<open>Dependency structure snapshots (\<open>dep_snapshot.py\<close>)\<close>

subsection \<open>The snapshot records\<close>

record OutputHandleSnap =
  solid_name :: string
  output_name :: string

record InputDependencySnap =
  input_name :: string
  prev_output_snaps :: "OutputHandleSnap list"

text \<open>\<open>tags\<close> is a Python dict of strings; its items are kept in iteration order.\<close>

record SolidInvocationSnap =
  solid_name :: string
  solid_def_name :: string
  tags :: "(string \<times> string) list"
  input_dep_snaps :: "InputDependencySnap list"

record DependencyStructureSnapshot =
  solid_invocation_snaps :: "SolidInvocationSnap list"


subsection \<open>The live graph the builder reads\<close>

text \<open>
  The classes of the live graph (\<open>Solid\<close>, \<open>SolidInputHandle\<close>, \<open>SolidOutputHandle\<close>,
  \<open>IContainSolids\<close>, \<open>DependencyStructure\<close>) are declared outside the sources.  The
  records below hold exactly the attributes the builder reads:
  \<open>solid.name\<close>, \<open>solid.definition.name\<close>, \<open>solid.tags\<close>,
  \<open>input_handle.input_def.name\<close>, \<open>oh.solid.name\<close>, \<open>oh.output_def.name\<close>,
  \<open>icontains_solids.solids\<close> and
  \<open>icontains_solids.dependency_structure.input_to_upstream_outputs_for_solid\<close>.
  The latter returns a dict from input handles to lists of output handles; it is a field
  of the graph, giving the items of that dict in iteration order for each solid name.
\<close>

record Solid =
  name :: string
  definition_name :: string
  tags :: "(string \<times> string) list"

record SolidInputHandle =
  input_def_name :: string

record SolidOutputHandle =
  solid_name :: string
  output_def_name :: string

record IContainSolids =
  solids :: "Solid list"
  input_to_upstream_outputs_for_solid ::
    "string \<Rightarrow> (SolidInputHandle \<times> SolidOutputHandle list) list"


subsection \<open>The builder\<close>

definition upstream_outputs ::
  "IContainSolids \<Rightarrow> Solid \<Rightarrow> (SolidInputHandle \<times> SolidOutputHandle list) list" where
  "upstream_outputs icontains_solids solid =
     input_to_upstream_outputs_for_solid icontains_solids (name solid)"

definition build_dep_structure_snapshot_from_icontains_solids ::
  "IContainSolids \<Rightarrow> DependencyStructureSnapshot" where
  "build_dep_structure_snapshot_from_icontains_solids icontains_solids =
     \<lparr>solid_invocation_snaps =
        map (\<lambda>solid.
              \<lparr>SolidInvocationSnap.solid_name = name solid,
               solid_def_name = definition_name solid,
               SolidInvocationSnap.tags = Solid.tags solid,
               input_dep_snaps =
                 map (\<lambda>(input_handle, output_handles).
                       \<lparr>input_name = input_def_name input_handle,
                        prev_output_snaps =
                          map (\<lambda>oh. \<lparr>OutputHandleSnap.solid_name = SolidOutputHandle.solid_name oh,
                                     output_name = output_def_name oh\<rparr>)
                              output_handles\<rparr>)
                     (upstream_outputs icontains_solids solid)\<rparr>)
            (solids icontains_solids)\<rparr>"


subsection \<open>The index\<close>

text \<open>
  The index holds one dict, from solid names to invocations.  The dict comprehension of
  \<open>__init__\<close> stores the invocations one after the other, in list order, each under
  its \<open>solid_name\<close>.
\<close>

record DependencyStructureSnapshotIndex =
  invocations_dict :: "string \<rightharpoonup> SolidInvocationSnap"

definition init_DependencyStructureSnapshotIndex ::
  "DependencyStructureSnapshot \<Rightarrow> DependencyStructureSnapshotIndex" where
  "init_DependencyStructureSnapshotIndex dep_structure_snapshot =
     \<lparr>invocations_dict =
        foldl (\<lambda>d si. d(SolidInvocationSnap.solid_name si \<mapsto> si)) Map.empty
              (solid_invocation_snaps dep_structure_snapshot)\<rparr>"

definition get_invocation ::
  "DependencyStructureSnapshotIndex \<Rightarrow> string \<Rightarrow> exception + SolidInvocationSnap" where
  "get_invocation self solid_nm =
     (case invocations_dict self solid_nm of
        None \<Rightarrow> Inl (KeyError solid_nm)
      | Some si \<Rightarrow> Inr si)"

text \<open>The \<open>for\<close> loop of \<open>get_upstream_outputs\<close>: the first match returns.\<close>

fun scan_input_deps :: "string \<Rightarrow> InputDependencySnap list \<Rightarrow> OutputHandleSnap list option" where
  "scan_input_deps input_nm [] = None"
| "scan_input_deps input_nm (input_dep # rest) =
     (if input_name input_dep = input_nm
      then Some (prev_output_snaps input_dep)
      else scan_input_deps input_nm rest)"

definition get_upstream_outputs ::
  "DependencyStructureSnapshotIndex \<Rightarrow> string \<Rightarrow> string \<Rightarrow> exception + OutputHandleSnap list" where
  "get_upstream_outputs self solid_nm input_nm =
     (case get_invocation self solid_nm of
        Inl e \<Rightarrow> Inl e
      | Inr si \<Rightarrow>
          (case scan_input_deps input_nm (input_dep_snaps si) of
             Some outputs \<Rightarrow> Inr outputs
           | None \<Rightarrow>
               check_failed (''Input '' @ input_nm @ '' not found for solid '' @ solid_nm)))"

definition get_upstream_output ::
  "DependencyStructureSnapshotIndex \<Rightarrow> string \<Rightarrow> string \<Rightarrow> exception + OutputHandleSnap" where
  "get_upstream_output self solid_nm input_nm =
     (case get_upstream_outputs self solid_nm input_nm of
        Inl e \<Rightarrow> Inl e
      | Inr outputs \<Rightarrow>
          (case check_invariant (length outputs = 1) of
             Inl e \<Rightarrow> Inl e
           | Inr _ \<Rightarrow> Inr (outputs ! 0)))"


section \<open>Schedule storage (\<open>sql_schedule_storage.py\<close>)\<close>

subsection \<open>The scheduler's records\<close>

text \<open>
  Modelled from the spec: the classes \<open>RepositoryDefinition\<close>, \<open>Schedule\<close>,
  \<open>ScheduleTick\<close>, \<open>ScheduleTickData\<close> and the two status enums are not among the sources.  The records hold the attributes the
  storage reads (\<open>repository.name\<close>, \<open>schedule.name\<close>, \<open>schedule.status\<close>,
  \<open>tick.tick_id\<close>, \<open>tick.schedule_tick_data\<close>, \<open>tick.status\<close>,
  \<open>schedule_tick_data.schedule_name\<close>, \<open>.status\<close>, \<open>.timestamp\<close>); what else a
  \<open>Schedule\<close> carries is the opaque field \<open>definition_data\<close>.  A timestamp is a number
  of seconds that no modelled operation computes with.  The members of the
  enums are those the spec lists, and \<open>.value\<close> of a member is its name.  An instance of
  any of these classes is truthy in Python (a plain object, or a named tuple with
  fields).
\<close>

datatype ScheduleStatus = RUNNING | STOPPED

datatype ScheduleTickStatus = STARTED | SKIPPED | SUCCESS | FAILURE

fun ScheduleStatus_value :: "ScheduleStatus \<Rightarrow> string" where
  "ScheduleStatus_value RUNNING = ''RUNNING''"
| "ScheduleStatus_value STOPPED = ''STOPPED''"

fun ScheduleTickStatus_value :: "ScheduleTickStatus \<Rightarrow> string" where
  "ScheduleTickStatus_value STARTED = ''STARTED''"
| "ScheduleTickStatus_value SKIPPED = ''SKIPPED''"
| "ScheduleTickStatus_value SUCCESS = ''SUCCESS''"
| "ScheduleTickStatus_value FAILURE = ''FAILURE''"

record RepositoryDefinition =
  name :: string

record Schedule =
  name :: string
  status :: ScheduleStatus
  definition_data :: string

record ScheduleTickData =
  schedule_name :: string
  status :: ScheduleTickStatus
  timestamp :: int

record ScheduleTick =
  tick_id :: int
  schedule_tick_data :: ScheduleTickData

text \<open>The property \<open>ScheduleTick.status\<close>.\<close>

definition ScheduleTick_status :: "ScheduleTick \<Rightarrow> ScheduleTickStatus" where
  "ScheduleTick_status tick = ScheduleTickData.status (schedule_tick_data tick)"


subsection \<open>The codec\<close>

text \<open>
  Modelled from the spec: the codec \<open>dagster.core.serdes\<close> is not among the sources.
  The spec's contract for it is that decoding an encoded record gives back a
  structurally equal record.  An encoded record is the record inside a wrapper that
  only the decoder opens.
\<close>

datatype 'a serialized = Serialized 'a

definition serialize_dagster_namedtuple :: "'a \<Rightarrow> 'a serialized" where
  "serialize_dagster_namedtuple nt = Serialized nt"

fun deserialize_json_to_dagster_namedtuple :: "'a serialized \<Rightarrow> 'a" where
  "deserialize_json_to_dagster_namedtuple (Serialized nt) = nt"


subsection \<open>The tables and the statements run on them\<close>

text \<open>
  Modelled from the spec: the table declarations (\<open>schema.py\<close>) are not among the
  sources.  The columns are those of the spec's relational schema, and the schedule
  table is unique on \<open>(repository_name, schedule_name)\<close>.  A table is the list of its
  rows, in the order a \<open>SELECT\<close> without \<open>ORDER BY\<close> returns them; an insert appends.
\<close>

record ScheduleRow =
  repository_name :: string
  schedule_name :: string
  status :: string
  schedule_body :: "Schedule serialized"

record ScheduleTickRow =
  id_column :: int
  repository_name :: string
  schedule_name :: string
  status :: string
  timestamp :: int
  tick_body :: "ScheduleTickData serialized"

record Database =
  ScheduleTable :: "ScheduleRow list"
  ScheduleTickTable :: "ScheduleTickRow list"

text \<open>
  A \<open>SELECT\<close> is the function from the rows of its table to the rows of its result:
  \<open>db.select cols\<close> projects every row, and each \<open>.where\<close> narrows the rows the query
  sees, so chained \<open>.where\<close> calls are a conjunction.
\<close>

type_synonym ('r, 'c) query = "'r list \<Rightarrow> 'c list"

definition select_from :: "('r \<Rightarrow> 'c) \<Rightarrow> ('r, 'c) query" where
  "select_from cols = map cols"

definition where_clause :: "('r, 'c) query \<Rightarrow> ('r \<Rightarrow> bool) \<Rightarrow> ('r, 'c) query" where
  "where_clause q cond = (\<lambda>rows. q (filter cond rows))"

text \<open>\<open>UPDATE ... WHERE cond SET vals\<close> and \<open>DELETE ... WHERE cond\<close>.\<close>

definition update_where :: "('r \<Rightarrow> bool) \<Rightarrow> ('r \<Rightarrow> 'r) \<Rightarrow> 'r list \<Rightarrow> 'r list" where
  "update_where cond vals rows = map (\<lambda>r. if cond r then vals r else r) rows"

definition delete_where :: "('r \<Rightarrow> bool) \<Rightarrow> 'r list \<Rightarrow> 'r list" where
  "delete_where cond rows = filter (\<lambda>r. \<not> cond r) rows"

text \<open>
  Modelled from the spec: the unique constraint of the schedule table is declared in
  \<open>schema.py\<close>, which is not among the sources.  An \<open>INSERT\<close> of a row whose
  \<open>(repository_name, schedule_name)\<close> is already in the table is rejected with the
  driver's \<open>IntegrityError\<close>, and the table stays as it was.
\<close>

definition insert_ScheduleTable :: "ScheduleRow \<Rightarrow> ScheduleRow list \<Rightarrow> exception + ScheduleRow list" where
  "insert_ScheduleTable row rows =
     (if \<exists>r\<in>set rows.
           ScheduleRow.repository_name r = ScheduleRow.repository_name row \<and>
           ScheduleRow.schedule_name r = ScheduleRow.schedule_name row
      then Inl IntegrityError
      else Inr (rows @ [row]))"


subsection \<open>The storage operations\<close>

text \<open>
  An operation takes the database and, when it writes, returns the database after it
  next to its result.  Opening and closing the connection (\<open>self.connect()\<close>) is left
  out, and so is the cause that \<open>six.raise_from\<close> chains to the exception it raises.
  \<open>create_schedule_tick\<close> is not modelled.
\<close>

definition deserialize_rows :: "'a serialized list \<Rightarrow> 'a list" where
  "deserialize_rows rows = map (\<lambda>r. deserialize_json_to_dagster_namedtuple r) rows"

text \<open>
  In \<open>all_schedules\<close> the local variable \<open>query\<close> is assigned only inside
  \<open>if repository:\<close>; \<open>None\<close> when it was not assigned.
\<close>

definition all_schedules :: "Database \<Rightarrow> RepositoryDefinition option \<Rightarrow> exception + Schedule list" where
  "all_schedules db repository =
     (let base_query = select_from schedule_body;
          query = (case repository of
                     Some repo \<Rightarrow>
                       Some (where_clause base_query
                               (\<lambda>r. ScheduleRow.repository_name r = RepositoryDefinition.name repo))
                   | None \<Rightarrow> None)
      in case query of
           None \<Rightarrow> Inl (UnboundLocalError ''query'')
         | Some q \<Rightarrow> Inr (deserialize_rows (q (ScheduleTable db))))"

definition get_schedule_by_name :: "Database \<Rightarrow> RepositoryDefinition \<Rightarrow> string \<Rightarrow> Schedule option" where
  "get_schedule_by_name db repository schedule_nm =
     (let query =
            where_clause
              (where_clause (select_from schedule_body)
                 (\<lambda>r. ScheduleRow.repository_name r = RepositoryDefinition.name repository))
              (\<lambda>r. ScheduleRow.schedule_name r = schedule_nm);
          rows = query (ScheduleTable db)
      in if length rows \<noteq> 0 then Some (deserialize_json_to_dagster_namedtuple (rows ! 0))
         else None)"

definition get_schedule_ticks_by_schedule ::
  "Database \<Rightarrow> RepositoryDefinition \<Rightarrow> string \<Rightarrow> ScheduleTick list" where
  "get_schedule_ticks_by_schedule db repository schedule_nm =
     (let query =
            where_clause
              (where_clause (select_from (\<lambda>r. (id_column r, tick_body r)))
                 (\<lambda>r. ScheduleTickRow.repository_name r = RepositoryDefinition.name repository))
              (\<lambda>r. ScheduleTickRow.schedule_name r = schedule_nm);
          rows = query (ScheduleTickTable db)
      in map (\<lambda>r. \<lparr>tick_id = fst r,
                    schedule_tick_data = deserialize_json_to_dagster_namedtuple (snd r)\<rparr>)
             rows)"

definition update_schedule_tick ::
  "Database \<Rightarrow> RepositoryDefinition \<Rightarrow> ScheduleTick \<Rightarrow> (exception + ScheduleTick) \<times> Database" where
  "update_schedule_tick db repository tick =
     (Inr tick,
      db\<lparr>ScheduleTickTable :=
           update_where (\<lambda>r. id_column r = tick_id tick)
             (\<lambda>r. r\<lparr>ScheduleTickRow.status := ScheduleTickStatus_value (ScheduleTick_status tick),
                     tick_body := serialize_dagster_namedtuple (schedule_tick_data tick)\<rparr>)
             (ScheduleTickTable db)\<rparr>)"

definition add_schedule ::
  "Database \<Rightarrow> RepositoryDefinition \<Rightarrow> Schedule \<Rightarrow> (exception + Schedule) \<times> Database" where
  "add_schedule db repository schedule =
     (let schedule_insert =
            \<lparr>ScheduleRow.repository_name = RepositoryDefinition.name repository,
             ScheduleRow.schedule_name = Schedule.name schedule,
             ScheduleRow.status = ScheduleStatus_value (Schedule.status schedule),
             schedule_body = serialize_dagster_namedtuple schedule\<rparr>
      in case insert_ScheduleTable schedule_insert (ScheduleTable db) of
           Inl IntegrityError \<Rightarrow>
             (Inl (DagsterInvariantViolationError
                     (''Schedule '' @ Schedule.name schedule @ '' for repository '' @
                      RepositoryDefinition.name repository @ '' is already present in storage'')),
              db)
         | Inl exc \<Rightarrow> (Inl exc, db)
         | Inr rows \<Rightarrow> (Inr schedule, db\<lparr>ScheduleTable := rows\<rparr>))"

definition update_schedule ::
  "Database \<Rightarrow> RepositoryDefinition \<Rightarrow> Schedule \<Rightarrow> (exception + unit) \<times> Database" where
  "update_schedule db repository schedule =
     (if get_schedule_by_name db repository (Schedule.name schedule) = None
      then (Inl (DagsterInvariantViolationError
                   (''Schedule '' @ Schedule.name schedule @ '' for repository '' @
                    RepositoryDefinition.name repository @ '' is not present in storage'')),
            db)
      else (Inr (),
            db\<lparr>ScheduleTable :=
                 update_where
                   (\<lambda>r. ScheduleRow.repository_name r = RepositoryDefinition.name repository \<and>
                        ScheduleRow.schedule_name r = Schedule.name schedule)
                   (\<lambda>r. r\<lparr>ScheduleRow.status := ScheduleStatus_value (Schedule.status schedule),
                           schedule_body := serialize_dagster_namedtuple schedule\<rparr>)
                   (ScheduleTable db)\<rparr>))"

definition delete_schedule ::
  "Database \<Rightarrow> RepositoryDefinition \<Rightarrow> Schedule \<Rightarrow> (exception + unit) \<times> Database" where
  "delete_schedule db repository schedule =
     (if get_schedule_by_name db repository (Schedule.name schedule) = None
      then (Inl (DagsterInvariantViolationError
                   (''Schedule '' @ Schedule.name schedule @ '' for repository '' @
                    RepositoryDefinition.name repository @ '' is not present in storage'')),
            db)
      else (Inr (),
            db\<lparr>ScheduleTable :=
                 delete_where
                   (\<lambda>r. ScheduleRow.repository_name r = RepositoryDefinition.name repository \<and>
                        ScheduleRow.schedule_name r = Schedule.name schedule)
                   (ScheduleTable db)\<rparr>))"

definition wipe :: "Database \<Rightarrow> (exception + unit) \<times> Database" where
  "wipe db = (Inr (), db\<lparr>ScheduleTable := delete_where (\<lambda>r. True) (ScheduleTable db)\<rparr>)"


section \<open>Example graphs\<close>

text \<open>
  Three solids \<open>a\<close>, \<open>b\<close> and \<open>c\<close>.  In \<open>fan_in_wiring\<close> the input \<open>nums\<close> of \<open>c\<close> is
  fed by the outputs of \<open>a\<close> and of \<open>b\<close> (a fan-in), and no other input is wired.  In
  \<open>empty_multi_wiring\<close> the dict of \<open>c\<close> holds the input \<open>nums\<close> with an empty list of
  output handles.
\<close>

definition fan_in_wiring :: "string \<Rightarrow> (SolidInputHandle \<times> SolidOutputHandle list) list" where
  "fan_in_wiring solid_nm =
     (if solid_nm = ''c''
      then [(\<lparr>input_def_name = ''nums''\<rparr>,
             [\<lparr>SolidOutputHandle.solid_name = ''a'', output_def_name = ''result''\<rparr>,
              \<lparr>SolidOutputHandle.solid_name = ''b'', output_def_name = ''result''\<rparr>])]
      else [])"

definition empty_multi_wiring :: "string \<Rightarrow> (SolidInputHandle \<times> SolidOutputHandle list) list" where
  "empty_multi_wiring solid_nm =
     (if solid_nm = ''c'' then [(\<lparr>input_def_name = ''nums''\<rparr>, [])] else [])"

definition example_solids :: "Solid list" where
  "example_solids =
     [\<lparr>Solid.name = ''a'', definition_name = ''emit'', Solid.tags = []\<rparr>,
      \<lparr>Solid.name = ''b'', definition_name = ''emit'', Solid.tags = []\<rparr>,
      \<lparr>Solid.name = ''c'', definition_name = ''sum'', Solid.tags = []\<rparr>]"


section \<open>Facts about the model\<close>

lemma foldl_dict_last:
  "foldl (\<lambda>d si. d(SolidInvocationSnap.solid_name si \<mapsto> si)) m xs n =
     (if filter (\<lambda>si. SolidInvocationSnap.solid_name si = n) xs = [] then m n
      else Some (last (filter (\<lambda>si. SolidInvocationSnap.solid_name si = n) xs)))"
  by (induction xs arbitrary: m) auto

lemma scan_input_deps_find:
  "scan_input_deps i ds = map_option prev_output_snaps (find (\<lambda>d. input_name d = i) ds)"
  by (induction ds) auto

lemma build_invocations:
  "solid_invocation_snaps (build_dep_structure_snapshot_from_icontains_solids g) =
     map (\<lambda>solid.
              \<lparr>SolidInvocationSnap.solid_name = Solid.name solid,
               solid_def_name = definition_name solid,
               SolidInvocationSnap.tags = Solid.tags solid,
               input_dep_snaps =
                 map (\<lambda>(input_handle, output_handles).
                       \<lparr>input_name = input_def_name input_handle,
                        prev_output_snaps =
                          map (\<lambda>oh. \<lparr>OutputHandleSnap.solid_name = SolidOutputHandle.solid_name oh,
                                     output_name = output_def_name oh\<rparr>)
                              output_handles\<rparr>)
                     (input_to_upstream_outputs_for_solid g (Solid.name solid))\<rparr>)
            (solids g)"
  by (simp add: build_dep_structure_snapshot_from_icontains_solids_def upstream_outputs_def)

lemma get_schedule_by_name_None_iff:
  "get_schedule_by_name db repository n = None \<longleftrightarrow>
     (\<forall>r\<in>set (ScheduleTable db).
        \<not> (ScheduleRow.repository_name r = RepositoryDefinition.name repository \<and>
           ScheduleRow.schedule_name r = n))"
  by (auto simp: get_schedule_by_name_def where_clause_def select_from_def Let_def
        filter_empty_conv)

lemma all_schedules_of_repository:
  "all_schedules db (Some repo) =
     Inr (map (\<lambda>r. deserialize_json_to_dagster_namedtuple (schedule_body r))
            (filter (\<lambda>r. ScheduleRow.repository_name r = RepositoryDefinition.name repo)
               (ScheduleTable db)))"
  by (simp add: all_schedules_def where_clause_def select_from_def deserialize_rows_def
        Let_def comp_def)


section \<open>The claims\<close>

subsection \<open>Schedule storage\<close>

text \<open>
  C1.  \<open>all_schedules\<close> binds its local \<open>query\<close> only under \<open>if repository:\<close>.  Called with
  the repository omitted, it reaches \<open>self.execute(query)\<close> with \<open>query\<close> unassigned and
  raises \<open>UnboundLocalError\<close>, whatever the database holds: it returns no schedule at
  all, where the claim has it return every stored schedule.  (With a repository it
  returns the decoded bodies of that repository's rows, \<open>all_schedules_of_repository\<close>.)
\<close>

theorem all_schedules_repository_omitted:
  "all_schedules db None = Inl (UnboundLocalError ''query'')"
  by (simp add: all_schedules_def)


text \<open>
  C2.  When the schedule table already holds a row with the repository's name and the
  schedule's name, \<open>add_schedule\<close> raises \<open>DagsterInvariantViolationError\<close> with the
  "is already present in storage" message, not the driver's \<open>IntegrityError\<close>, and
  the database after the call is the database before it.  The witness adds the same
  schedule twice to an empty database.
\<close>

theorem add_schedule_conflict:
  assumes "\<exists>r\<in>set (ScheduleTable db).
             ScheduleRow.repository_name r = RepositoryDefinition.name repo \<and>
             ScheduleRow.schedule_name r = Schedule.name S"
  shows "add_schedule db repo S =
           (Inl (DagsterInvariantViolationError
                   (''Schedule '' @ Schedule.name S @ '' for repository '' @
                    RepositoryDefinition.name repo @ '' is already present in storage'')),
            db)"
  using assms by (simp add: add_schedule_def insert_ScheduleTable_def Let_def)

theorem add_schedule_conflict_witness:
  "add_schedule \<lparr>ScheduleTable = [], ScheduleTickTable = []\<rparr>
     \<lparr>RepositoryDefinition.name = ''repo''\<rparr>
     \<lparr>Schedule.name = ''daily'', Schedule.status = RUNNING, definition_data = ''0 0 * * *''\<rparr>
   = (Inr \<lparr>Schedule.name = ''daily'', Schedule.status = RUNNING, definition_data = ''0 0 * * *''\<rparr>,
      \<lparr>ScheduleTable =
         [\<lparr>ScheduleRow.repository_name = ''repo'', ScheduleRow.schedule_name = ''daily'',
           ScheduleRow.status = ''RUNNING'',
           schedule_body = Serialized \<lparr>Schedule.name = ''daily'', Schedule.status = RUNNING,
                                       definition_data = ''0 0 * * *''\<rparr>\<rparr>],
       ScheduleTickTable = []\<rparr>)
   \<and> add_schedule
       \<lparr>ScheduleTable =
         [\<lparr>ScheduleRow.repository_name = ''repo'', ScheduleRow.schedule_name = ''daily'',
           ScheduleRow.status = ''RUNNING'',
           schedule_body = Serialized \<lparr>Schedule.name = ''daily'', Schedule.status = RUNNING,
                                       definition_data = ''0 0 * * *''\<rparr>\<rparr>],
       ScheduleTickTable = []\<rparr>
       \<lparr>RepositoryDefinition.name = ''repo''\<rparr>
       \<lparr>Schedule.name = ''daily'', Schedule.status = RUNNING, definition_data = ''0 0 * * *''\<rparr>
   = (Inl (DagsterInvariantViolationError
             ''Schedule daily for repository repo is already present in storage''),
      \<lparr>ScheduleTable =
         [\<lparr>ScheduleRow.repository_name = ''repo'', ScheduleRow.schedule_name = ''daily'',
           ScheduleRow.status = ''RUNNING'',
           schedule_body = Serialized \<lparr>Schedule.name = ''daily'', Schedule.status = RUNNING,
                                       definition_data = ''0 0 * * *''\<rparr>\<rparr>],
       ScheduleTickTable = []\<rparr>)"
  using add_schedule_conflict
    [of "\<lparr>ScheduleTable =
         [\<lparr>ScheduleRow.repository_name = ''repo'', ScheduleRow.schedule_name = ''daily'',
           ScheduleRow.status = ''RUNNING'',
           schedule_body = Serialized \<lparr>Schedule.name = ''daily'', Schedule.status = RUNNING,
                                       definition_data = ''0 0 * * *''\<rparr>\<rparr>],
       ScheduleTickTable = []\<rparr>"
       "\<lparr>RepositoryDefinition.name = ''repo''\<rparr>"
       "\<lparr>Schedule.name = ''daily'', Schedule.status = RUNNING, definition_data = ''0 0 * * *''\<rparr>"]
  by (simp add: add_schedule_def insert_ScheduleTable_def serialize_dagster_namedtuple_def)

text \<open>
  C3, as amended.  When no row of the schedule table has the repository's name and
  the schedule's name, \<open>update_schedule\<close> and \<open>delete_schedule\<close> both raise
  \<open>DagsterInvariantViolationError\<close> with the "is not present in storage" message and
  leave the database as it was.
\<close>

theorem update_delete_schedule_not_present:
  assumes "\<forall>r\<in>set (ScheduleTable db).
             \<not> (ScheduleRow.repository_name r = RepositoryDefinition.name repo \<and>
                ScheduleRow.schedule_name r = Schedule.name S)"
  shows "update_schedule db repo S =
           (Inl (DagsterInvariantViolationError
                   (''Schedule '' @ Schedule.name S @ '' for repository '' @
                    RepositoryDefinition.name repo @ '' is not present in storage'')),
            db)
       \<and> delete_schedule db repo S =
           (Inl (DagsterInvariantViolationError
                   (''Schedule '' @ Schedule.name S @ '' for repository '' @
                    RepositoryDefinition.name repo @ '' is not present in storage'')),
            db)"
proof -
  from assms have "get_schedule_by_name db repo (Schedule.name S) = None"
    by (simp only: get_schedule_by_name_None_iff)
  then show ?thesis by (simp add: update_schedule_def delete_schedule_def)
qed

theorem update_delete_schedule_not_present_witness:
  "update_schedule
     \<lparr>ScheduleTable =
         [\<lparr>ScheduleRow.repository_name = ''repo'', ScheduleRow.schedule_name = ''daily'',
           ScheduleRow.status = ''RUNNING'',
           schedule_body = Serialized \<lparr>Schedule.name = ''daily'', Schedule.status = RUNNING,
                                       definition_data = ''0 0 * * *''\<rparr>\<rparr>],
       ScheduleTickTable = []\<rparr>
     \<lparr>RepositoryDefinition.name = ''repo''\<rparr>
     \<lparr>Schedule.name = ''hourly'', Schedule.status = STOPPED, definition_data = ''0 * * * *''\<rparr>
   = (Inl (DagsterInvariantViolationError
             ''Schedule hourly for repository repo is not present in storage''),
      \<lparr>ScheduleTable =
         [\<lparr>ScheduleRow.repository_name = ''repo'', ScheduleRow.schedule_name = ''daily'',
           ScheduleRow.status = ''RUNNING'',
           schedule_body = Serialized \<lparr>Schedule.name = ''daily'', Schedule.status = RUNNING,
                                       definition_data = ''0 0 * * *''\<rparr>\<rparr>],
       ScheduleTickTable = []\<rparr>)
   \<and> delete_schedule
     \<lparr>ScheduleTable =
         [\<lparr>ScheduleRow.repository_name = ''repo'', ScheduleRow.schedule_name = ''daily'',
           ScheduleRow.status = ''RUNNING'',
           schedule_body = Serialized \<lparr>Schedule.name = ''daily'', Schedule.status = RUNNING,
                                       definition_data = ''0 0 * * *''\<rparr>\<rparr>],
       ScheduleTickTable = []\<rparr>
     \<lparr>RepositoryDefinition.name = ''repo''\<rparr>
     \<lparr>Schedule.name = ''hourly'', Schedule.status = STOPPED, definition_data = ''0 * * * *''\<rparr>
   = (Inl (DagsterInvariantViolationError
             ''Schedule hourly for repository repo is not present in storage''),
      \<lparr>ScheduleTable =
         [\<lparr>ScheduleRow.repository_name = ''repo'', ScheduleRow.schedule_name = ''daily'',
           ScheduleRow.status = ''RUNNING'',
           schedule_body = Serialized \<lparr>Schedule.name = ''daily'', Schedule.status = RUNNING,
                                       definition_data = ''0 0 * * *''\<rparr>\<rparr>],
       ScheduleTickTable = []\<rparr>)"
  using update_delete_schedule_not_present
    [of "\<lparr>ScheduleTable =
         [\<lparr>ScheduleRow.repository_name = ''repo'', ScheduleRow.schedule_name = ''daily'',
           ScheduleRow.status = ''RUNNING'',
           schedule_body = Serialized \<lparr>Schedule.name = ''daily'', Schedule.status = RUNNING,
                                       definition_data = ''0 0 * * *''\<rparr>\<rparr>],
       ScheduleTickTable = []\<rparr>"
       "\<lparr>RepositoryDefinition.name = ''repo''\<rparr>"
       "\<lparr>Schedule.name = ''hourly'', Schedule.status = STOPPED, definition_data = ''0 * * * *''\<rparr>"]
  by simp

text \<open>
  C3, as stated, has the "not present" error of a type distinct from the conflict
  error of \<open>add_schedule\<close>.  Both are raised as the one class
  \<open>DagsterInvariantViolationError\<close>; only the message tells them apart.
\<close>

theorem not_present_error_class_counterexample:
  "fst (update_schedule
     \<lparr>ScheduleTable =
         [\<lparr>ScheduleRow.repository_name = ''repo'', ScheduleRow.schedule_name = ''daily'',
           ScheduleRow.status = ''RUNNING'',
           schedule_body = Serialized \<lparr>Schedule.name = ''daily'', Schedule.status = RUNNING,
                                       definition_data = ''0 0 * * *''\<rparr>\<rparr>],
       ScheduleTickTable = []\<rparr>
     \<lparr>RepositoryDefinition.name = ''repo''\<rparr>
     \<lparr>Schedule.name = ''hourly'', Schedule.status = STOPPED, definition_data = ''0 * * * *''\<rparr>)
   = Inl (DagsterInvariantViolationError
            ''Schedule hourly for repository repo is not present in storage'')
   \<and> fst (add_schedule
     \<lparr>ScheduleTable =
         [\<lparr>ScheduleRow.repository_name = ''repo'', ScheduleRow.schedule_name = ''daily'',
           ScheduleRow.status = ''RUNNING'',
           schedule_body = Serialized \<lparr>Schedule.name = ''daily'', Schedule.status = RUNNING,
                                       definition_data = ''0 0 * * *''\<rparr>\<rparr>],
       ScheduleTickTable = []\<rparr>
     \<lparr>RepositoryDefinition.name = ''repo''\<rparr>
     \<lparr>Schedule.name = ''daily'', Schedule.status = RUNNING, definition_data = ''0 0 * * *''\<rparr>)
   = Inl (DagsterInvariantViolationError
            ''Schedule daily for repository repo is already present in storage'')
   \<and> exception_class (DagsterInvariantViolationError
            ''Schedule hourly for repository repo is not present in storage'')
     = exception_class (DagsterInvariantViolationError
            ''Schedule daily for repository repo is already present in storage'')"
  by (simp add: update_schedule_def add_schedule_def insert_ScheduleTable_def
        get_schedule_by_name_def where_clause_def select_from_def)

text \<open>
  C8.  \<open>wipe\<close> empties the schedule table and leaves the tick table as it was, so
  \<open>get_schedule_ticks_by_schedule\<close> returns after the wipe what it returned before,
  and \<open>all_schedules\<close> called with a repository returns the empty list.  Called as
  the claim has it, with no repository, \<open>all_schedules\<close> raises \<open>UnboundLocalError\<close>
  after the wipe as it does before (see C1): it returns no collection, empty or not.
\<close>

theorem wipe_scope:
  "ScheduleTable (snd (wipe db)) = []
   \<and> ScheduleTickTable (snd (wipe db)) = ScheduleTickTable db
   \<and> get_schedule_ticks_by_schedule (snd (wipe db)) repo n =
       get_schedule_ticks_by_schedule db repo n
   \<and> all_schedules (snd (wipe db)) (Some repo) = Inr []
   \<and> all_schedules (snd (wipe db)) None = Inl (UnboundLocalError ''query'')"
proof -
  have "all_schedules (snd (wipe db)) None = Inl (UnboundLocalError ''query'')"
    by (simp add: all_schedules_def)
  then show ?thesis
    by (simp add: wipe_def delete_where_def get_schedule_ticks_by_schedule_def
          all_schedules_of_repository)
qed

text \<open>
  C9.  \<open>update_schedule_tick\<close> never raises and returns the tick it was given.  It
  leaves the schedule table alone and keeps the number and order of the tick rows;
  each row whose id is the tick's \<open>tick_id\<close> gets the tick's status and encoded body,
  every other row stays as it was.  When no row has that id the database after the
  call is the database before it: a silent no-op.
\<close>

theorem update_schedule_tick_by_id:
  "fst (update_schedule_tick db repo tick) = Inr tick
   \<and> ScheduleTable (snd (update_schedule_tick db repo tick)) = ScheduleTable db
   \<and> length (ScheduleTickTable (snd (update_schedule_tick db repo tick))) =
       length (ScheduleTickTable db)
   \<and> (\<forall>k<length (ScheduleTickTable db).
        ScheduleTickTable (snd (update_schedule_tick db repo tick)) ! k =
          (if id_column (ScheduleTickTable db ! k) = tick_id tick
           then (ScheduleTickTable db ! k)
                  \<lparr>ScheduleTickRow.status :=
                     ScheduleTickStatus_value (ScheduleTick_status tick),
                   tick_body := serialize_dagster_namedtuple (schedule_tick_data tick)\<rparr>
           else ScheduleTickTable db ! k))
   \<and> ((\<forall>r\<in>set (ScheduleTickTable db). id_column r \<noteq> tick_id tick)
        \<longrightarrow> update_schedule_tick db repo tick = (Inr tick, db))"
proof -
  have "(\<forall>r\<in>set (ScheduleTickTable db). id_column r \<noteq> tick_id tick) \<Longrightarrow>
        update_where (\<lambda>r. id_column r = tick_id tick) f (ScheduleTickTable db) =
        ScheduleTickTable db" for f
    by (simp add: update_where_def map_idI)
  then show ?thesis
    by (simp add: update_schedule_tick_def update_where_def)
qed

theorem update_schedule_tick_by_id_witness:
  "update_schedule_tick
     \<lparr>ScheduleTable = [],
      ScheduleTickTable =
        [\<lparr>id_column = 1, ScheduleTickRow.repository_name = ''repo'',
          ScheduleTickRow.schedule_name = ''daily'', ScheduleTickRow.status = ''STARTED'',
          ScheduleTickRow.timestamp = 1000,
          tick_body = Serialized \<lparr>ScheduleTickData.schedule_name = ''daily'',
                                   ScheduleTickData.status = STARTED,
                                   ScheduleTickData.timestamp = 1000\<rparr>\<rparr>]\<rparr>
     \<lparr>RepositoryDefinition.name = ''repo''\<rparr>
     \<lparr>tick_id = 7,
      schedule_tick_data = \<lparr>ScheduleTickData.schedule_name = ''daily'',
                             ScheduleTickData.status = SUCCESS,
                             ScheduleTickData.timestamp = 1000\<rparr>\<rparr>
   = (Inr \<lparr>tick_id = 7,
           schedule_tick_data = \<lparr>ScheduleTickData.schedule_name = ''daily'',
                                  ScheduleTickData.status = SUCCESS,
                                  ScheduleTickData.timestamp = 1000\<rparr>\<rparr>,
      \<lparr>ScheduleTable = [],
       ScheduleTickTable =
        [\<lparr>id_column = 1, ScheduleTickRow.repository_name = ''repo'',
          ScheduleTickRow.schedule_name = ''daily'', ScheduleTickRow.status = ''STARTED'',
          ScheduleTickRow.timestamp = 1000,
          tick_body = Serialized \<lparr>ScheduleTickData.schedule_name = ''daily'',
                                   ScheduleTickData.status = STARTED,
                                   ScheduleTickData.timestamp = 1000\<rparr>\<rparr>]\<rparr>)"
  using update_schedule_tick_by_id
    [of "\<lparr>ScheduleTable = [],
      ScheduleTickTable =
        [\<lparr>id_column = 1, ScheduleTickRow.repository_name = ''repo'',
          ScheduleTickRow.schedule_name = ''daily'', ScheduleTickRow.status = ''STARTED'',
          ScheduleTickRow.timestamp = 1000,
          tick_body = Serialized \<lparr>ScheduleTickData.schedule_name = ''daily'',
                                   ScheduleTickData.status = STARTED,
                                   ScheduleTickData.timestamp = 1000\<rparr>\<rparr>]\<rparr>"
        "\<lparr>RepositoryDefinition.name = ''repo''\<rparr>"
        "\<lparr>tick_id = 7,
      schedule_tick_data = \<lparr>ScheduleTickData.schedule_name = ''daily'',
                             ScheduleTickData.status = SUCCESS,
                             ScheduleTickData.timestamp = 1000\<rparr>\<rparr>"]
  by simp

subsection \<open>The snapshot index\<close>

text \<open>
  C10.  In a snapshot whose invocation list is \<open>pre @ si # post\<close>, where no invocation
  of \<open>post\<close> has the name of \<open>si\<close>, the index returns \<open>si\<close> for that name, whatever
  \<open>pre\<close> holds: of several invocations sharing a name the last one wins.  Building
  the index is a total function, it reports nothing about the repeated name.
\<close>

theorem index_last_invocation_wins:
  assumes "solid_invocation_snaps snapshot = pre @ si # post"
    and "\<forall>s\<in>set post. SolidInvocationSnap.solid_name s \<noteq> SolidInvocationSnap.solid_name si"
  shows "get_invocation (init_DependencyStructureSnapshotIndex snapshot)
           (SolidInvocationSnap.solid_name si) = Inr si"
proof -
  let ?P = "\<lambda>s. SolidInvocationSnap.solid_name s = SolidInvocationSnap.solid_name si"
  from assms(2) have "filter ?P post = []" by (simp add: filter_empty_conv)
  then have "filter ?P (pre @ si # post) = filter ?P pre @ [si]" by simp
  then show ?thesis
    using assms(1)
    by (simp add: get_invocation_def init_DependencyStructureSnapshotIndex_def foldl_dict_last)
qed

theorem index_last_invocation_wins_witness:
  "get_invocation
     (init_DependencyStructureSnapshotIndex
        \<lparr>solid_invocation_snaps =
           [\<lparr>SolidInvocationSnap.solid_name = ''a'', solid_def_name = ''first'',
             SolidInvocationSnap.tags = [], input_dep_snaps = []\<rparr>,
            \<lparr>SolidInvocationSnap.solid_name = ''a'', solid_def_name = ''second'',
             SolidInvocationSnap.tags = [], input_dep_snaps = []\<rparr>,
            \<lparr>SolidInvocationSnap.solid_name = ''b'', solid_def_name = ''other'',
             SolidInvocationSnap.tags = [], input_dep_snaps = []\<rparr>]\<rparr>)
     ''a''
   = Inr \<lparr>SolidInvocationSnap.solid_name = ''a'', solid_def_name = ''second'',
          SolidInvocationSnap.tags = [], input_dep_snaps = []\<rparr>"
  using index_last_invocation_wins
    [of "\<lparr>solid_invocation_snaps =
           [\<lparr>SolidInvocationSnap.solid_name = ''a'', solid_def_name = ''first'',
             SolidInvocationSnap.tags = [], input_dep_snaps = []\<rparr>,
            \<lparr>SolidInvocationSnap.solid_name = ''a'', solid_def_name = ''second'',
             SolidInvocationSnap.tags = [], input_dep_snaps = []\<rparr>,
            \<lparr>SolidInvocationSnap.solid_name = ''b'', solid_def_name = ''other'',
             SolidInvocationSnap.tags = [], input_dep_snaps = []\<rparr>]\<rparr>"
        "[\<lparr>SolidInvocationSnap.solid_name = ''a'', solid_def_name = ''first'',
             SolidInvocationSnap.tags = [], input_dep_snaps = []\<rparr>]"
        "\<lparr>SolidInvocationSnap.solid_name = ''a'', solid_def_name = ''second'',
             SolidInvocationSnap.tags = [], input_dep_snaps = []\<rparr>"
        "[\<lparr>SolidInvocationSnap.solid_name = ''b'', solid_def_name = ''other'',
             SolidInvocationSnap.tags = [], input_dep_snaps = []\<rparr>]"]
  by simp

text \<open>
  C4, as amended.  For a solid name the index does not hold, \<open>get_upstream_output\<close>
  raises the \<open>KeyError\<close> of the dict lookup in \<open>get_invocation\<close>.  For a solid name
  present in the index, it returns a handle \<open>h\<close> exactly when the first Input
  Dependency with that input name (the one the linear scan stops at) records the
  one-element list \<open>[h]\<close>.  When that Input Dependency records no or several handles
  the call raises the \<open>CheckError\<close> of \<open>check.invariant\<close>; when the invocation has no
  Input Dependency with that name it raises the \<open>CheckError\<close> of \<open>check.failed\<close>.
\<close>

theorem get_upstream_output_single:
  "(invocations_dict idx n = None \<longrightarrow> get_upstream_output idx n i = Inl (KeyError n))
   \<and> (\<forall>si. invocations_dict idx n = Some si \<longrightarrow>
         (get_upstream_output idx n i = Inr h \<longleftrightarrow>
            (\<exists>d. find (\<lambda>d. input_name d = i) (input_dep_snaps si) = Some d \<and>
                 prev_output_snaps d = [h]))
       \<and> (\<forall>d. find (\<lambda>d. input_name d = i) (input_dep_snaps si) = Some d \<and>
               length (prev_output_snaps d) \<noteq> 1
               \<longrightarrow> get_upstream_output idx n i = Inl (CheckError ''Invariant failed.''))
       \<and> (find (\<lambda>d. input_name d = i) (input_dep_snaps si) = None
               \<longrightarrow> get_upstream_output idx n i =
                   Inl (CheckError (''Failure condition: Input '' @ i @ '' not found for solid '' @ n))))"
proof (intro conjI impI allI)
  assume "invocations_dict idx n = None"
  then show "get_upstream_output idx n i = Inl (KeyError n)"
    by (simp add: get_upstream_output_def get_upstream_outputs_def get_invocation_def)
next
  fix si
  assume present: "invocations_dict idx n = Some si"
  show "get_upstream_output idx n i = Inr h \<longleftrightarrow>
          (\<exists>d. find (\<lambda>d. input_name d = i) (input_dep_snaps si) = Some d \<and>
               prev_output_snaps d = [h])"
    using present
    by (cases "find (\<lambda>d. input_name d = i) (input_dep_snaps si)")
       (auto simp: get_upstream_output_def get_upstream_outputs_def get_invocation_def
          scan_input_deps_find check_failed_def check_invariant_def length_Suc_conv)
next
  fix si d
  assume present: "invocations_dict idx n = Some si"
    and "find (\<lambda>d. input_name d = i) (input_dep_snaps si) = Some d \<and>
         length (prev_output_snaps d) \<noteq> 1"
  then show "get_upstream_output idx n i = Inl (CheckError ''Invariant failed.'')"
    by (simp add: get_upstream_output_def get_upstream_outputs_def get_invocation_def
          scan_input_deps_find check_invariant_def)
next
  fix si
  assume present: "invocations_dict idx n = Some si"
    and "find (\<lambda>d. input_name d = i) (input_dep_snaps si) = None"
  then show "get_upstream_output idx n i =
      Inl (CheckError (''Failure condition: Input '' @ i @ '' not found for solid '' @ n))"
    by (simp add: get_upstream_output_def get_upstream_outputs_def get_invocation_def
          scan_input_deps_find check_failed_def)
qed

theorem get_upstream_output_single_witness:
  "get_upstream_output
     (init_DependencyStructureSnapshotIndex
        \<lparr>solid_invocation_snaps =
           [\<lparr>SolidInvocationSnap.solid_name = ''c'', solid_def_name = ''sum'',
             SolidInvocationSnap.tags = [],
             input_dep_snaps =
               [\<lparr>input_name = ''one'',
                 prev_output_snaps =
                   [\<lparr>OutputHandleSnap.solid_name = ''a'', output_name = ''result''\<rparr>]\<rparr>,
                \<lparr>input_name = ''nums'',
                 prev_output_snaps =
                   [\<lparr>OutputHandleSnap.solid_name = ''a'', output_name = ''result''\<rparr>,
                    \<lparr>OutputHandleSnap.solid_name = ''b'', output_name = ''result''\<rparr>]\<rparr>]\<rparr>]\<rparr>)
     ''c'' ''one''
   = Inr \<lparr>OutputHandleSnap.solid_name = ''a'', output_name = ''result''\<rparr>
   \<and> get_upstream_output
     (init_DependencyStructureSnapshotIndex
        \<lparr>solid_invocation_snaps =
           [\<lparr>SolidInvocationSnap.solid_name = ''c'', solid_def_name = ''sum'',
             SolidInvocationSnap.tags = [],
             input_dep_snaps =
               [\<lparr>input_name = ''one'',
                 prev_output_snaps =
                   [\<lparr>OutputHandleSnap.solid_name = ''a'', output_name = ''result''\<rparr>]\<rparr>,
                \<lparr>input_name = ''nums'',
                 prev_output_snaps =
                   [\<lparr>OutputHandleSnap.solid_name = ''a'', output_name = ''result''\<rparr>,
                    \<lparr>OutputHandleSnap.solid_name = ''b'', output_name = ''result''\<rparr>]\<rparr>]\<rparr>]\<rparr>)
     ''c'' ''nums''
   = Inl (CheckError ''Invariant failed.'')
   \<and> get_upstream_output
     (init_DependencyStructureSnapshotIndex
        \<lparr>solid_invocation_snaps =
           [\<lparr>SolidInvocationSnap.solid_name = ''c'', solid_def_name = ''sum'',
             SolidInvocationSnap.tags = [],
             input_dep_snaps =
               [\<lparr>input_name = ''one'',
                 prev_output_snaps =
                   [\<lparr>OutputHandleSnap.solid_name = ''a'', output_name = ''result''\<rparr>]\<rparr>,
                \<lparr>input_name = ''nums'',
                 prev_output_snaps =
                   [\<lparr>OutputHandleSnap.solid_name = ''a'', output_name = ''result''\<rparr>,
                    \<lparr>OutputHandleSnap.solid_name = ''b'', output_name = ''result''\<rparr>]\<rparr>]\<rparr>]\<rparr>)
     ''z'' ''one''
   = Inl (KeyError ''z'')"
proof -
  let ?one = "\<lparr>input_name = ''one'',
                 prev_output_snaps =
                   [\<lparr>OutputHandleSnap.solid_name = ''a'', output_name = ''result''\<rparr>]\<rparr>"
  let ?nums = "\<lparr>input_name = ''nums'',
                 prev_output_snaps =
                   [\<lparr>OutputHandleSnap.solid_name = ''a'', output_name = ''result''\<rparr>,
                    \<lparr>OutputHandleSnap.solid_name = ''b'', output_name = ''result''\<rparr>]\<rparr>"
  let ?si = "\<lparr>SolidInvocationSnap.solid_name = ''c'', solid_def_name = ''sum'',
             SolidInvocationSnap.tags = [], input_dep_snaps = [?one, ?nums]\<rparr>"
  let ?idx = "init_DependencyStructureSnapshotIndex \<lparr>solid_invocation_snaps = [?si]\<rparr>"
  have present: "invocations_dict ?idx ''c'' = Some ?si"
    by (simp add: init_DependencyStructureSnapshotIndex_def)
  have absent: "invocations_dict ?idx ''z'' = None"
    by (simp add: init_DependencyStructureSnapshotIndex_def)
  from get_upstream_output_single
         [of ?idx "''c''" "''one''" "\<lparr>OutputHandleSnap.solid_name = ''a'', output_name = ''result''\<rparr>"]
       present
  have "get_upstream_output ?idx ''c'' ''one'' =
          Inr \<lparr>OutputHandleSnap.solid_name = ''a'', output_name = ''result''\<rparr>"
    by simp
  moreover from get_upstream_output_single [of ?idx "''c''" "''nums''"] present
  have "get_upstream_output ?idx ''c'' ''nums'' = Inl (CheckError ''Invariant failed.'')"
    by simp
  moreover from get_upstream_output_single [of ?idx "''z''" "''one''"] absent
  have "get_upstream_output ?idx ''z'' ''one'' = Inl (KeyError ''z'')"
    by simp
  ultimately show ?thesis by simp
qed

text \<open>
  C4, as stated, ranges over every solid name.  For a name the index does not hold,
  nothing is recorded for the input and the call fails, but with the \<open>KeyError\<close> of
  the dict lookup in \<open>get_invocation\<close>, not with an invariant-violation error.
\<close>

theorem get_upstream_output_absent_solid_counterexample:
  "get_upstream_output (init_DependencyStructureSnapshotIndex \<lparr>solid_invocation_snaps = []\<rparr>)
     ''a'' ''x''
   = Inl (KeyError ''a'')
   \<and> exception_class (KeyError ''a'') \<noteq> exception_class (CheckError ''Invariant failed.'')"
  by (simp add: get_upstream_output_def get_upstream_outputs_def get_invocation_def
        init_DependencyStructureSnapshotIndex_def)

text \<open>
  C5.  For a solid name present in the index: when the invocation's list of Input
  Dependencies is \<open>pre @ d # post\<close> with \<open>d\<close> the first one named \<open>i\<close>,
  \<open>get_upstream_outputs\<close> returns the whole list of handles \<open>d\<close> records, in its
  order and whatever its length; when no Input Dependency of the invocation is named
  \<open>i\<close>, it raises the \<open>CheckError\<close> of \<open>check.failed\<close>.  The witness is a fan-in of
  two producers.
\<close>

theorem get_upstream_outputs_recorded:
  assumes "invocations_dict idx n = Some si"
  shows "(\<forall>pre d post.
            input_dep_snaps si = pre @ d # post \<and> input_name d = i \<and>
            (\<forall>p\<in>set pre. input_name p \<noteq> i)
            \<longrightarrow> get_upstream_outputs idx n i = Inr (prev_output_snaps d))
       \<and> ((\<forall>d\<in>set (input_dep_snaps si). input_name d \<noteq> i)
            \<longrightarrow> get_upstream_outputs idx n i =
                  Inl (CheckError (''Failure condition: Input '' @ i @ '' not found for solid '' @ n)))"
proof (intro conjI allI impI)
  fix pre d post
  assume h: "input_dep_snaps si = pre @ d # post \<and> input_name d = i \<and>
            (\<forall>p\<in>set pre. input_name p \<noteq> i)"
  then have "find (\<lambda>d. input_name d = i) (input_dep_snaps si) = Some d"
    by (auto simp: find_Some_iff nth_append intro!: exI[of _ "length pre"])
  then show "get_upstream_outputs idx n i = Inr (prev_output_snaps d)"
    using assms by (simp add: get_upstream_outputs_def get_invocation_def scan_input_deps_find)
next
  assume "\<forall>d\<in>set (input_dep_snaps si). input_name d \<noteq> i"
  then have "find (\<lambda>d. input_name d = i) (input_dep_snaps si) = None"
    by (simp add: find_None_iff)
  then show "get_upstream_outputs idx n i =
     Inl (CheckError (''Failure condition: Input '' @ i @ '' not found for solid '' @ n))"
    using assms
    by (simp add: get_upstream_outputs_def get_invocation_def scan_input_deps_find check_failed_def)
qed

theorem get_upstream_outputs_recorded_witness:
  "get_upstream_outputs
     (init_DependencyStructureSnapshotIndex
        (build_dep_structure_snapshot_from_icontains_solids
           \<lparr>solids = example_solids, input_to_upstream_outputs_for_solid = fan_in_wiring\<rparr>))
     ''c'' ''nums''
   = Inr [\<lparr>OutputHandleSnap.solid_name = ''a'', output_name = ''result''\<rparr>,
          \<lparr>OutputHandleSnap.solid_name = ''b'', output_name = ''result''\<rparr>]
   \<and> get_upstream_outputs
     (init_DependencyStructureSnapshotIndex
        (build_dep_structure_snapshot_from_icontains_solids
           \<lparr>solids = example_solids, input_to_upstream_outputs_for_solid = fan_in_wiring\<rparr>))
     ''c'' ''other''
   = Inl (CheckError ''Failure condition: Input other not found for solid c'')"
proof -
  let ?idx = "init_DependencyStructureSnapshotIndex
        (build_dep_structure_snapshot_from_icontains_solids
           \<lparr>solids = example_solids, input_to_upstream_outputs_for_solid = fan_in_wiring\<rparr>)"
  let ?d = "\<lparr>input_name = ''nums'',
             prev_output_snaps =
               [\<lparr>OutputHandleSnap.solid_name = ''a'', output_name = ''result''\<rparr>,
                \<lparr>OutputHandleSnap.solid_name = ''b'', output_name = ''result''\<rparr>]\<rparr>"
  let ?si = "\<lparr>SolidInvocationSnap.solid_name = ''c'', solid_def_name = ''sum'',
              SolidInvocationSnap.tags = [], input_dep_snaps = [?d]\<rparr>"
  have present: "invocations_dict ?idx ''c'' = Some ?si"
    by (simp add: init_DependencyStructureSnapshotIndex_def build_invocations example_solids_def
          fan_in_wiring_def)
  from get_upstream_outputs_recorded [OF present, of "''nums''"]
  have "get_upstream_outputs ?idx ''c'' ''nums'' = Inr (prev_output_snaps ?d)"
    by (elim conjE allE [of _ "[]"] allE [of _ ?d]) simp
  moreover from get_upstream_outputs_recorded [OF present, of "''other''"]
  have "get_upstream_outputs ?idx ''c'' ''other'' =
          Inl (CheckError ''Failure condition: Input other not found for solid c'')"
    by simp
  ultimately show ?thesis by simp
qed


subsection \<open>The snapshot builder\<close>

text \<open>
  C6.  The snapshot is a function of the wiring the builder reads and of nothing else:
  two graphs with the same list of solids whose dependency structures agree on the
  names of these solids give equal snapshots.  The invocations come in the order of
  \<open>solids\<close>, and the Input Dependencies of the \<open>k\<close>-th invocation are, in order, the
  items of the dict the graph returns for the \<open>k\<close>-th solid, each with its handles in
  the order of the dict's list.
\<close>

theorem build_function_of_wiring:
  "(solids g = solids g' \<and>
    (\<forall>s\<in>set (solids g). input_to_upstream_outputs_for_solid g (Solid.name s) =
                          input_to_upstream_outputs_for_solid g' (Solid.name s))
    \<longrightarrow> build_dep_structure_snapshot_from_icontains_solids g =
        build_dep_structure_snapshot_from_icontains_solids g')
   \<and> map SolidInvocationSnap.solid_name
        (solid_invocation_snaps (build_dep_structure_snapshot_from_icontains_solids g)) =
      map Solid.name (solids g)
   \<and> (\<forall>k<length (solids g).
        map (\<lambda>d. (input_name d, prev_output_snaps d))
          (input_dep_snaps
             (solid_invocation_snaps (build_dep_structure_snapshot_from_icontains_solids g) ! k)) =
        map (\<lambda>(ih, ohs).
               (input_def_name ih,
                map (\<lambda>oh. \<lparr>OutputHandleSnap.solid_name = SolidOutputHandle.solid_name oh,
                           output_name = output_def_name oh\<rparr>) ohs))
          (input_to_upstream_outputs_for_solid g (Solid.name (solids g ! k))))"
proof (intro conjI impI allI)
  assume h: "solids g = solids g' \<and>
    (\<forall>s\<in>set (solids g). input_to_upstream_outputs_for_solid g (Solid.name s) =
                          input_to_upstream_outputs_for_solid g' (Solid.name s))"
  have "solid_invocation_snaps (build_dep_structure_snapshot_from_icontains_solids g) =
        solid_invocation_snaps (build_dep_structure_snapshot_from_icontains_solids g')"
    unfolding build_invocations using h by (auto intro!: map_cong)
  then show "build_dep_structure_snapshot_from_icontains_solids g =
        build_dep_structure_snapshot_from_icontains_solids g'"
    by simp
next
  show "map SolidInvocationSnap.solid_name
        (solid_invocation_snaps (build_dep_structure_snapshot_from_icontains_solids g)) =
      map Solid.name (solids g)"
    by (simp add: build_invocations comp_def)
next
  fix k assume "k < length (solids g)"
  then show "map (\<lambda>d. (input_name d, prev_output_snaps d))
          (input_dep_snaps
             (solid_invocation_snaps (build_dep_structure_snapshot_from_icontains_solids g) ! k)) =
        map (\<lambda>(ih, ohs).
               (input_def_name ih,
                map (\<lambda>oh. \<lparr>OutputHandleSnap.solid_name = SolidOutputHandle.solid_name oh,
                           output_name = output_def_name oh\<rparr>) ohs))
          (input_to_upstream_outputs_for_solid g (Solid.name (solids g ! k)))"
    by (simp add: build_invocations comp_def split_def)
qed

theorem build_function_of_wiring_witness:
  "build_dep_structure_snapshot_from_icontains_solids
     \<lparr>solids = example_solids, input_to_upstream_outputs_for_solid = fan_in_wiring\<rparr>
   = build_dep_structure_snapshot_from_icontains_solids
     \<lparr>solids = example_solids,
      input_to_upstream_outputs_for_solid =
        fan_in_wiring(''z'' := [(\<lparr>input_def_name = ''nums''\<rparr>, [])])\<rparr>
   \<and> map SolidInvocationSnap.solid_name
        (solid_invocation_snaps
           (build_dep_structure_snapshot_from_icontains_solids
              \<lparr>solids = example_solids, input_to_upstream_outputs_for_solid = fan_in_wiring\<rparr>))
     = [''a'', ''b'', ''c'']
   \<and> input_dep_snaps
        (solid_invocation_snaps
           (build_dep_structure_snapshot_from_icontains_solids
              \<lparr>solids = example_solids, input_to_upstream_outputs_for_solid = fan_in_wiring\<rparr>) ! 2)
     = [\<lparr>input_name = ''nums'',
         prev_output_snaps =
           [\<lparr>OutputHandleSnap.solid_name = ''a'', output_name = ''result''\<rparr>,
            \<lparr>OutputHandleSnap.solid_name = ''b'', output_name = ''result''\<rparr>]\<rparr>]"
proof -
  let ?g = "\<lparr>solids = example_solids, input_to_upstream_outputs_for_solid = fan_in_wiring\<rparr>"
  let ?g' = "\<lparr>solids = example_solids,
      input_to_upstream_outputs_for_solid =
        fan_in_wiring(''z'' := [(\<lparr>input_def_name = ''nums''\<rparr>, [])])\<rparr>"
  note w = build_function_of_wiring [of ?g ?g']
  have "build_dep_structure_snapshot_from_icontains_solids ?g =
        build_dep_structure_snapshot_from_icontains_solids ?g'"
    using w [THEN conjunct1] by (simp add: example_solids_def)
  moreover have "map SolidInvocationSnap.solid_name
        (solid_invocation_snaps (build_dep_structure_snapshot_from_icontains_solids ?g))
     = [''a'', ''b'', ''c'']"
    using w [THEN conjunct2, THEN conjunct1] by (simp add: example_solids_def)
  moreover have "input_dep_snaps
        (solid_invocation_snaps (build_dep_structure_snapshot_from_icontains_solids ?g) ! 2)
     = [\<lparr>input_name = ''nums'',
         prev_output_snaps =
           [\<lparr>OutputHandleSnap.solid_name = ''a'', output_name = ''result''\<rparr>,
            \<lparr>OutputHandleSnap.solid_name = ''b'', output_name = ''result''\<rparr>]\<rparr>]"
    by (simp add: build_invocations example_solids_def fan_in_wiring_def)
  ultimately show ?thesis by simp
qed

text \<open>
  C7, as amended.  The builder emits one invocation per solid, and the Input
  Dependencies of the \<open>k\<close>-th invocation are exactly the items of the dict the graph
  returns for the \<open>k\<close>-th solid, one Input Dependency per item, each with all the
  producers of the item's list in their order: it filters nothing.  So every Input
  Dependency of the snapshot has at least one producer exactly when no item of these
  dicts has an empty list.
\<close>

theorem build_producer_lists_nonempty_iff:
  "length (solid_invocation_snaps (build_dep_structure_snapshot_from_icontains_solids g)) =
     length (solids g)
   \<and> (\<forall>k<length (solids g).
        input_dep_snaps
          (solid_invocation_snaps (build_dep_structure_snapshot_from_icontains_solids g) ! k) =
        map (\<lambda>(input_handle, output_handles).
               \<lparr>input_name = input_def_name input_handle,
                prev_output_snaps =
                  map (\<lambda>oh. \<lparr>OutputHandleSnap.solid_name = SolidOutputHandle.solid_name oh,
                             output_name = output_def_name oh\<rparr>)
                      output_handles\<rparr>)
          (input_to_upstream_outputs_for_solid g (Solid.name (solids g ! k))))
   \<and> ((\<forall>si\<in>set (solid_invocation_snaps (build_dep_structure_snapshot_from_icontains_solids g)).
         \<forall>d\<in>set (input_dep_snaps si). 1 \<le> length (prev_output_snaps d))
       \<longleftrightarrow>
       (\<forall>s\<in>set (solids g).
         \<forall>e\<in>set (input_to_upstream_outputs_for_solid g (Solid.name s)). 1 \<le> length (snd e)))"
proof (intro conjI allI impI)
  show "length (solid_invocation_snaps (build_dep_structure_snapshot_from_icontains_solids g)) =
     length (solids g)"
    by (simp add: build_invocations)
next
  fix k assume "k < length (solids g)"
  then show "input_dep_snaps
          (solid_invocation_snaps (build_dep_structure_snapshot_from_icontains_solids g) ! k) =
        map (\<lambda>(input_handle, output_handles).
               \<lparr>input_name = input_def_name input_handle,
                prev_output_snaps =
                  map (\<lambda>oh. \<lparr>OutputHandleSnap.solid_name = SolidOutputHandle.solid_name oh,
                             output_name = output_def_name oh\<rparr>)
                      output_handles\<rparr>)
          (input_to_upstream_outputs_for_solid g (Solid.name (solids g ! k)))"
    by (simp add: build_invocations)
next
  show "(\<forall>si\<in>set (solid_invocation_snaps (build_dep_structure_snapshot_from_icontains_solids g)).
         \<forall>d\<in>set (input_dep_snaps si). 1 \<le> length (prev_output_snaps d))
       \<longleftrightarrow>
       (\<forall>s\<in>set (solids g).
         \<forall>e\<in>set (input_to_upstream_outputs_for_solid g (Solid.name s)). 1 \<le> length (snd e))"
    by (fastforce simp: build_invocations split_def)
qed

theorem build_producer_lists_nonempty_iff_witness:
  "input_dep_snaps
     (solid_invocation_snaps
        (build_dep_structure_snapshot_from_icontains_solids
           \<lparr>solids = example_solids, input_to_upstream_outputs_for_solid = fan_in_wiring\<rparr>) ! 2)
   = [\<lparr>input_name = ''nums'',
       prev_output_snaps =
         [\<lparr>OutputHandleSnap.solid_name = ''a'', output_name = ''result''\<rparr>,
          \<lparr>OutputHandleSnap.solid_name = ''b'', output_name = ''result''\<rparr>]\<rparr>]
   \<and> list_all (\<lambda>si. list_all (\<lambda>d. 1 \<le> length (prev_output_snaps d)) (input_dep_snaps si))
     (solid_invocation_snaps
        (build_dep_structure_snapshot_from_icontains_solids
           \<lparr>solids = example_solids, input_to_upstream_outputs_for_solid = fan_in_wiring\<rparr>))"
proof -
  let ?g = "\<lparr>solids = example_solids, input_to_upstream_outputs_for_solid = fan_in_wiring\<rparr>"
  note w = build_producer_lists_nonempty_iff [of ?g]
  have "2 < length (solids ?g)" by (simp add: example_solids_def)
  with w [THEN conjunct2, THEN conjunct1]
  have "input_dep_snaps
          (solid_invocation_snaps (build_dep_structure_snapshot_from_icontains_solids ?g) ! 2) =
        map (\<lambda>(input_handle, output_handles).
               \<lparr>input_name = input_def_name input_handle,
                prev_output_snaps =
                  map (\<lambda>oh. \<lparr>OutputHandleSnap.solid_name = SolidOutputHandle.solid_name oh,
                             output_name = output_def_name oh\<rparr>)
                      output_handles\<rparr>)
          (input_to_upstream_outputs_for_solid ?g (Solid.name (solids ?g ! 2)))"
    by blast
  then have first: "input_dep_snaps
          (solid_invocation_snaps (build_dep_structure_snapshot_from_icontains_solids ?g) ! 2)
      = [\<lparr>input_name = ''nums'',
          prev_output_snaps =
            [\<lparr>OutputHandleSnap.solid_name = ''a'', output_name = ''result''\<rparr>,
             \<lparr>OutputHandleSnap.solid_name = ''b'', output_name = ''result''\<rparr>]\<rparr>]"
    by (simp add: example_solids_def fan_in_wiring_def)
  have "\<forall>s\<in>set (solids ?g).
          \<forall>e\<in>set (input_to_upstream_outputs_for_solid ?g (Solid.name s)). 1 \<le> length (snd e)"
    by (simp add: example_solids_def fan_in_wiring_def)
  with w [THEN conjunct2, THEN conjunct2]
  have "\<forall>si\<in>set (solid_invocation_snaps (build_dep_structure_snapshot_from_icontains_solids ?g)).
         \<forall>d\<in>set (input_dep_snaps si). 1 \<le> length (prev_output_snaps d)"
    by blast
  then have second: "list_all (\<lambda>si. list_all (\<lambda>d. 1 \<le> length (prev_output_snaps d)) (input_dep_snaps si))
     (solid_invocation_snaps (build_dep_structure_snapshot_from_icontains_solids ?g))"
    by (simp add: list_all_iff)
  from first second show ?thesis by simp
qed

text \<open>
  C7, as stated, has no Input Dependency with an empty producer list in any snapshot
  the builder produces.  From a graph whose dict for \<open>c\<close> holds the input \<open>nums\<close> with
  an empty list, the builder emits the Input Dependency \<open>nums\<close> with no producer; the
  constructor \<open>InputDependencySnap\<close> checks the list's type only.
\<close>

theorem build_empty_producer_list_counterexample:
  "input_dep_snaps
     (solid_invocation_snaps
        (build_dep_structure_snapshot_from_icontains_solids
           \<lparr>solids = example_solids, input_to_upstream_outputs_for_solid = empty_multi_wiring\<rparr>) ! 2)
   = [\<lparr>input_name = ''nums'', prev_output_snaps = []\<rparr>]"
  by (simp add: build_invocations example_solids_def empty_multi_wiring_def)

end
